theory Spec2Isabelle
  imports Complex_Main "HOL-Library.AList" "HOL-Library.Word"
begin

section \<open>Listing search and ranking: a model of the discovery search module\<close>

text \<open>
  The module builds Elasticsearch requests as JavaScript object literals. They are
  modelled as JSON values; an object is an association list in insertion order.
\<close>

datatype json =
    JNull
  | JBool bool
  | JNum int
  | JStr string
  | JArr "json list"
  | JObj "(string \<times> json) list"

text \<open>Failures of the source: a thrown JavaScript error or a rejected promise.\<close>

datatype error =
    TypeError
  | EngineError string
  | ScoringError string
  | RedisError string

datatype log_entry =
    LogError string
  | LogErrorExn string error
  | LogDebug string

subsection \<open>Strings\<close>

text \<open>
  \<open>String.prototype.split(sep)\<close> for a one-character separator: the pieces between
  the separators, so the empty string gives one empty piece.
\<close>

fun split :: "char \<Rightarrow> string \<Rightarrow> string list" where
  "split c [] = [[]]"
| "split c (x # xs) =
     (if x = c then [] # split c xs
      else (case split c xs of
              [] \<Rightarrow> [[x]]
            | w # ws \<Rightarrow> (x # w) # ws))"

subsection \<open>The boolean query of \<open>Listing.search\<close>\<close>

text \<open>
  \<open>esQuery.bool\<close>: the four clause arrays. The field \<open>filter\<close> of the source is
  \<open>filter_c\<close> here.
\<close>

record bool_query =
  must :: "json list"
  must_not :: "json list"
  should :: "json list"
  filter_c :: "json list"

definition bool_json :: "bool_query \<Rightarrow> json" where
  "bool_json q =
     JObj [(''bool'', JObj [(''must'', JArr (must q)),
                            (''must_not'', JArr (must_not q)),
                            (''should'', JArr (should q)),
                            (''filter'', JArr (filter_c q))])]"

text \<open>A filter object of the \<open>filters\<close> argument; \<open>value\<close> is any JSON value.\<close>

record filter =
  name :: string
  operator :: string
  "value" :: json
  valueType :: string

text \<open>The three clauses pushed to \<open>must_not\<close> before anything else is looked at.\<close>

definition withdrawn_clause :: json where
  "withdrawn_clause = JObj [(''match'', JObj [(''status'', JStr ''withdrawn'')])]"

definition invalid_clause :: json where
  "invalid_clause = JObj [(''term'', JObj [(''valid'', JBool False)])]"

definition hidden_clause :: json where
  "hidden_clause =
     JObj [(''terms'', JObj [(''scoreTags'', JArr [JStr ''Hide'', JStr ''Delete''])])]"

definition all_text_clause :: "string \<Rightarrow> json" where
  "all_text_clause query =
     JObj [(''match'', JObj [(''all_text'',
       JObj [(''query'', JStr query),
             (''fuzziness'', JStr ''AUTO''),
             (''minimum_should_match'', JStr ''-20%'')])])]"

definition title_clause :: "string \<Rightarrow> json" where
  "title_clause query =
     JObj [(''match'', JObj [(''title'',
       JObj [(''query'', JStr query),
             (''boost'', JNum 2),
             (''fuzziness'', JStr ''AUTO'')])])]"

definition phrase_clause :: "string \<Rightarrow> json" where
  "phrase_clause query =
     JObj [(''match_phrase'', JObj [(''all_text'',
       JObj [(''query'', JStr query), (''slop'', JNum 50)])])]"

definition match_all_clause :: json where
  "match_all_clause = JObj [(''match_all'', JObj [])]"

text \<open>
  \<open>esQuery\<close> as it stands when the deep clone is taken: the literal, the two pushes to
  \<open>must_not\<close>, and the branch on the query string (\<open>None\<close> is \<open>undefined\<close>).
\<close>

definition esQuery_base :: "string option \<Rightarrow> bool_query" where
  "esQuery_base query =
     (let q0 = \<lparr>must = [], must_not = [withdrawn_clause], should = [], filter_c = []\<rparr>;
          q1 = q0\<lparr>must_not := must_not q0 @ [invalid_clause]\<rparr>;
          q2 = q1\<lparr>must_not := must_not q1 @ [hidden_clause]\<rparr>
      in (case query of
            None \<Rightarrow> q2\<lparr>must := must q2 @ [match_all_clause]\<rparr>
          | Some s \<Rightarrow>
              if s \<noteq> [] then
                (let q3 = q2\<lparr>must := must q2 @ [all_text_clause s]\<rparr>;
                     q4 = q3\<lparr>should := should q3 @ [title_clause s]\<rparr>
                 in q4\<lparr>should := should q4 @ [phrase_clause s]\<rparr>)
              else q2\<lparr>must := must q2 @ [match_all_clause]\<rparr>))"

text \<open>
  \<open>JSON.parse(JSON.stringify(x))\<close> on a value built of null, booleans, integers,
  strings, arrays and objects: a structural copy.
\<close>

fun json_clone :: "json \<Rightarrow> json" where
  "json_clone JNull = JNull"
| "json_clone (JBool b) = JBool b"
| "json_clone (JNum n) = JNum n"
| "json_clone (JStr s) = JStr s"
| "json_clone (JArr xs) = JArr (map json_clone xs)"
| "json_clone (JObj kvs) = JObj (map (\<lambda>(k, v). (k, json_clone v)) kvs)"

definition clone_query :: "bool_query \<Rightarrow> bool_query" where
  "clone_query q =
     \<lparr>must = map json_clone (must q),
      must_not = map json_clone (must_not q),
      should = map json_clone (should q),
      filter_c = map json_clone (filter_c q)\<rparr>"

text \<open>\<open>esAggregationQuery\<close>: the clone, taken before \<open>filters.forEach\<close> runs.\<close>

definition esAggregationQuery :: "string option \<Rightarrow> bool_query" where
  "esAggregationQuery query = clone_query (esQuery_base query)"

text \<open>
  The body of \<open>filters.forEach\<close>: \<open>innerFilter\<close> starts as the empty object and is
  replaced by the first branch that applies. \<open>filter.value.split\<close> exists on strings
  only, so the call throws a TypeError on any other value.
\<close>

definition innerFilter :: "filter \<Rightarrow> error + json" where
  "innerFilter f =
     (if operator f = ''GREATER_OR_EQUAL'' then
        Inr (JObj [(''range'', JObj [(name f, JObj [(''gte'', value f)])])])
      else if operator f = ''LESSER_OR_EQUAL'' then
        Inr (JObj [(''range'', JObj [(name f, JObj [(''lte'', value f)])])])
      else if operator f = ''CONTAINS'' \<and> valueType f = ''ARRAY_STRING'' then
        (case value f of
           JStr s \<Rightarrow>
             Inr (JObj [(''bool'', JObj [(''should'',
               JArr (map (\<lambda>singleValue. JObj [(''term'', JObj [(name f, JStr singleValue)])])
                      (split CHR '','' s)))])])
         | _ \<Rightarrow> Inl TypeError)
      else if operator f = ''EQUALS'' then
        Inr (JObj [(''term'', JObj [(name f, value f)])])
      else Inr (JObj []))"

fun push_filters :: "bool_query \<Rightarrow> filter list \<Rightarrow> error + bool_query" where
  "push_filters q [] = Inr q"
| "push_filters q (f # fs) =
     (case innerFilter f of
        Inl e \<Rightarrow> Inl e
      | Inr c \<Rightarrow> push_filters (q\<lparr>filter_c := filter_c q @ [c]\<rparr>) fs)"

text \<open>
  \<open>esQuery\<close> after the loop, the ranked query. \<open>filters === undefined\<close> (\<open>None\<close>)
  stands for the empty array.
\<close>

definition esQuery :: "string option \<Rightarrow> filter list option \<Rightarrow> error + bool_query" where
  "esQuery query filters =
     push_filters (esQuery_base query) (case filters of None \<Rightarrow> [] | Some fs \<Rightarrow> fs)"

subsection \<open>The scoring script\<close>

text \<open>
  The Painless script of \<open>scoreQuery\<close>, run by the engine on every matching document.
  \<open>long\<close> values are 64-bit words with signed comparison; \<open>double\<close> arithmetic is
  idealised as real arithmetic. A field the document lacks is \<open>None\<close>.
\<close>

record doc_values =
  scoreMultiplier :: "real option"
  createdEvent_timestamp :: "64 word option"

definition recentBoostAmount :: real where
  "recentBoostAmount = 0.5"

definition boostPeriod :: "64 word" where
  "boostPeriod = 18 * 24 * 60 * 60"

definition score_script :: "64 word \<Rightarrow> real \<Rightarrow> doc_values \<Rightarrow> real" where
  "score_script now base_score d =
     (let score = (case scoreMultiplier d of
                     None \<Rightarrow> base_score
                   | Some m \<Rightarrow> base_score * m)
      in (case createdEvent_timestamp d of
            None \<Rightarrow> score
          | Some ts \<Rightarrow>
              (let age = now - ts
               in if 0 <s age \<and> age <s boostPeriod then
                    score * (1.0 + (real_of_int (sint age) / real_of_int (sint boostPeriod))
                                     * recentBoostAmount)
                  else score)))"

text \<open>
  \<open>params.now\<close> is \<open>new Date().getTime()\<close>: the clock in milliseconds since the epoch,
  handed to the script as a \<open>long\<close>.
\<close>

definition params_now :: "int \<Rightarrow> 64 word" where
  "params_now getTime_ms = word_of_int getTime_ms"

text \<open>The script texts themselves are stood for by their names in the request.\<close>

definition score_script_source :: string where
  "score_script_source = ''score_script''"

definition price_sort_script_source :: string where
  "price_sort_script_source = ''sort_script''"

definition scoreQuery :: "int \<Rightarrow> bool_query \<Rightarrow> json" where
  "scoreQuery getTime_ms q =
     JObj [(''function_score'',
       JObj [(''query'', bool_json q),
             (''script_score'',
               JObj [(''script'',
                 JObj [(''params'', JObj [(''now'', JNum getTime_ms)]),
                       (''source'', JStr score_script_source)])])])]"

subsection \<open>Exchange rates\<close>

type_synonym rates = "(string \<times> string) list"

text \<open>
  The rate source: \<open>require('../lib/redis')\<close> throws or gives \<open>getAsync\<close>, whose
  promise rejects, resolves to \<open>null\<close> (\<open>None\<close>) or resolves to a string.
\<close>

type_synonym redis = "error + (string \<Rightarrow> error + string option)"

datatype rate_promise = Resolved string | GetAsync string

definition resolvedCurrency :: "string \<Rightarrow> string option" where
  "resolvedCurrency currency =
     (case split CHR ''-'' currency of
        a # b # rest \<Rightarrow> Some b
      | _ \<Rightarrow> None)"

text \<open>The callback of \<open>currencies.map\<close>: a constant or one lookup.\<close>

definition rate_promise :: "string \<Rightarrow> rate_promise" where
  "rate_promise currency =
     (if resolvedCurrency currency = Some ''USD'' then Resolved ''1''
      else GetAsync ((case resolvedCurrency currency of
                        None \<Rightarrow> ''undefined''
                      | Some r \<Rightarrow> r) @ ''-USD_price''))"

definition settle :: "(string \<Rightarrow> error + string option) \<Rightarrow> rate_promise \<Rightarrow> error + string option" where
  "settle getAsync p =
     (case p of
        Resolved v \<Rightarrow> Inr (Some v)
      | GetAsync key \<Rightarrow> getAsync key)"

text \<open>
  \<open>await Promise.all\<close>: all the values, or a rejection. Which rejection it is when
  several lookups reject depends on their timing; the first in list order stands for it,
  and \<open>getExchangeRatesToUSD\<close> uses it for one log entry only.
\<close>

fun await_all :: "(error + 'a) list \<Rightarrow> error + 'a list" where
  "await_all [] = Inr []"
| "await_all (p # ps) =
     (case p of
        Inl e \<Rightarrow> Inl e
      | Inr v \<Rightarrow> (case await_all ps of
                   Inl e \<Rightarrow> Inl e
                 | Inr vs \<Rightarrow> Inr (v # vs)))"

text \<open>\<open>result.forEach\<close>: a \<open>null\<close> is logged, anything else is stored under its currency.\<close>

fun store_rates :: "(string \<times> string option) list \<Rightarrow> rates \<times> log_entry list \<Rightarrow> rates \<times> log_entry list" where
  "store_rates [] acc = acc"
| "store_rates ((currency, r) # rest) (exchangeRates, logs) =
     (case r of
        None \<Rightarrow>
          store_rates rest
            (exchangeRates,
             logs @ [LogError (''Failed getting exchange rate for '' @ currency @
                               '' from Redis. Check Bridge server.'')])
      | Some v \<Rightarrow> store_rates rest (AList.update currency v exchangeRates, logs))"

definition default_rates :: rates where
  "default_rates =
     [(''fiat-CNY'', ''0.14''),
      (''fiat-EUR'', ''1.12''),
      (''fiat-GBP'', ''1.22''),
      (''fiat-JPY'', ''0.0094''),
      (''fiat-KRW'', ''0.00082''),
      (''fiat-SGD'', ''0.72''),
      (''fiat-USD'', ''1.0''),
      (''token-DAI'', ''1.0''),
      (''token-ETH'', ''200.0'')]"

record rates_outcome =
  exchangeRates :: rates
  rate_logs :: "log_entry list"
  lookups :: "string list"

definition lookup_keys :: "string list \<Rightarrow> string list" where
  "lookup_keys currencies =
     concat (map (\<lambda>c. case rate_promise c of Resolved v \<Rightarrow> [] | GetAsync key \<Rightarrow> [key])
               currencies)"

definition getExchangeRatesToUSD :: "redis \<Rightarrow> string list \<Rightarrow> rates_outcome" where
  "getExchangeRatesToUSD redis currencies =
     (case redis of
        Inl e \<Rightarrow>
          \<lparr>exchangeRates = default_rates,
           rate_logs = [LogErrorExn ''Error retrieving exchange rates from redis. Using defaults'' e,
                        LogDebug ''Exchange Rates - ''],
           lookups = []\<rparr>
      | Inr getAsync \<Rightarrow>
          (case await_all (map (settle getAsync \<circ> rate_promise) currencies) of
             Inl e \<Rightarrow>
               \<lparr>exchangeRates = default_rates,
                rate_logs = [LogErrorExn ''Error retrieving exchange rates from redis. Using defaults'' e,
                             LogDebug ''Exchange Rates - ''],
                lookups = lookup_keys currencies\<rparr>
           | Inr result \<Rightarrow>
               (let (stored, logs) = store_rates (zip currencies result) ([], [])
                in \<lparr>exchangeRates = stored,
                    rate_logs = logs @ [LogDebug ''Exchange Rates - ''],
                    lookups = lookup_keys currencies\<rparr>)))"

text \<open>The fixed currency list of \<open>Listing.search\<close>.\<close>

definition currencies :: "string list" where
  "currencies =
     [''fiat-CNY'', ''fiat-EUR'', ''fiat-GBP'', ''fiat-JPY'', ''fiat-KRW'',
      ''fiat-SGD'', ''fiat-USD'', ''token-DAI'', ''token-ETH'']"

subsection \<open>Sorting\<close>

text \<open>Property access along a path; \<open>None\<close> is \<open>undefined\<close>.\<close>

fun get_path :: "json \<Rightarrow> string list \<Rightarrow> json option" where
  "get_path j [] = Some j"
| "get_path (JObj kvs) (k # ks) =
     (case map_of kvs k of
        None \<Rightarrow> None
      | Some v \<Rightarrow> get_path v ks)"
| "get_path j (k # ks) = None"

text \<open>
  The Painless sort script for \<open>price.amount\<close>: the two statements of its
  \<open>try\<close> block, each a value or an exception (\<open>None\<close>), and the \<open>catch\<close> that
  returns the sentinel. \<open>Float.parseFloat\<close> is a parameter, \<open>None\<close> being its
  NumberFormatException; a missing field, a value that is no string and a currency
  without a rate throw as well. \<open>float\<close> arithmetic is idealised as real arithmetic.
\<close>

definition sentinel :: "string \<Rightarrow> real" where
  "sentinel order' = (if order' = ''asc'' then 1000000000 else 0)"

definition parsed_amount :: "(string \<Rightarrow> real option) \<Rightarrow> json \<Rightarrow> real option" where
  "parsed_amount parseFloat src =
     (case get_path src [''price'', ''amount''] of
        Some (JStr a) \<Rightarrow> parseFloat a
      | _ \<Rightarrow> None)"

definition parsed_rate :: "(string \<Rightarrow> real option) \<Rightarrow> rates \<Rightarrow> json \<Rightarrow> real option" where
  "parsed_rate parseFloat rts src =
     (case get_path src [''price'', ''currency'', ''id''] of
        Some (JStr c) \<Rightarrow>
          (case map_of rts c of
             Some r \<Rightarrow> parseFloat r
           | None \<Rightarrow> None)
      | _ \<Rightarrow> None)"

definition sort_script :: "(string \<Rightarrow> real option) \<Rightarrow> string \<Rightarrow> rates \<Rightarrow> json \<Rightarrow> real" where
  "sort_script parseFloat order' rts src =
     (case parsed_amount parseFloat src of
        None \<Rightarrow> sentinel order'
      | Some amount \<Rightarrow>
          (case parsed_rate parseFloat rts src of
             None \<Rightarrow> sentinel order'
           | Some rate \<Rightarrow> amount * rate))"

definition sortWhiteList :: "string list" where
  "sortWhiteList = [''price.amount'']"

definition orderWhiteList :: "string list" where
  "orderWhiteList = [''asc'', ''desc'']"

definition price_sort :: "string \<Rightarrow> rates \<Rightarrow> json" where
  "price_sort order' rts =
     JObj [(''_script'',
       JObj [(''type'', JStr ''number''),
             (''script'',
               JObj [(''lang'', JStr ''painless''),
                     (''source'', JStr price_sort_script_source),
                     (''params'',
                       JObj [(''order'', JStr order'),
                             (''exchangeRates'', JObj (map (\<lambda>(k, v). (k, JStr v)) rts))])]),
             (''order'', JStr order')])]"

definition not_whitelisted_message :: "string \<Rightarrow> string \<Rightarrow> string" where
  "not_whitelisted_message sort' order' =
     ''Sort variables are not whitelisted - sort = '' @ sort' @ '', order = '' @ order' @
     '', disabling sorting''"

text \<open>
  \<open>getSortQuery\<close>: the sort specification and everything logged on the way. The empty
  array is "no sort". \<open>None\<close> is a missing \<open>sort\<close> or \<open>order\<close>.
\<close>

definition getSortQuery :: "redis \<Rightarrow> string option \<Rightarrow> string option \<Rightarrow> json \<times> log_entry list" where
  "getSortQuery redis sort' order' =
     (let r = getExchangeRatesToUSD redis currencies
      in (case (sort', order') of
            (Some s, Some ord) \<Rightarrow>
              if s \<noteq> [] \<and> ord \<noteq> [] then
                (if s \<in> set sortWhiteList \<and> ord \<in> set orderWhiteList then
                   (if s = ''price.amount'' then (price_sort ord (exchangeRates r), rate_logs r)
                    else (JArr [JObj [(s, JObj [(''order'', JStr ord)])]], rate_logs r))
                 else (JArr [], rate_logs r @ [LogError (not_whitelisted_message s ord)]))
              else (JArr [], rate_logs r)
          | _ \<Rightarrow> (JArr [], rate_logs r)))"

subsection \<open>The index engine\<close>

type_synonym obj = "(string \<times> json) list"

text \<open>The bodies of the two \<open>client.search\<close> calls of \<open>Listing.search\<close>.\<close>

record search_body =
  sb_from :: int
  sb_size :: int
  sb_query :: json
  sb_sort :: json
  sb_source :: "string list"

record aggregation_body =
  ab_query :: json
  ab_source :: "string list"
  ab_aggs :: json

record hit =
  hit_id :: string
  hit_source :: obj

record search_response =
  hits :: "hit list"
  total :: int

record aggregation_response =
  max_price_value :: "real option"
  min_price_value :: "real option"

text \<open>
  The client of the engine, a parameter of the model: every call resolves or rejects.
  The two requests of \<open>Listing.search\<close> are in flight together; when both reject,
  \<open>search_rejects_first\<close> says whether the rejection of the search request is the
  earlier one.
\<close>

record client =
  client_search :: "search_body \<Rightarrow> error + search_response"
  client_aggregate :: "aggregation_body \<Rightarrow> error + aggregation_response"
  client_get :: "string \<Rightarrow> error + obj"
  client_update :: "string \<Rightarrow> json \<Rightarrow> error + unit"
  search_rejects_first :: bool

subsection \<open>\<open>Listing.search\<close>\<close>

text \<open>The legacy sentinel: \<open>numberOfItems === -1\<close> becomes 1000.\<close>

definition resolve_numberOfItems :: "int \<Rightarrow> int" where
  "resolve_numberOfItems numberOfItems = (if numberOfItems = - 1 then 1000 else numberOfItems)"

definition search_source :: "string list" where
  "search_source =
     [''title'', ''description'', ''price'', ''commissionPerUnit'', ''scoreMultiplier'',
      ''scoreTags'']"

definition searchRequest :: "int \<Rightarrow> bool_query \<Rightarrow> json \<Rightarrow> int \<Rightarrow> int \<Rightarrow> search_body" where
  "searchRequest getTime_ms q sortQuery numberOfItems offset =
     \<lparr>sb_from = offset,
      sb_size = resolve_numberOfItems numberOfItems,
      sb_query = scoreQuery getTime_ms q,
      sb_sort = sortQuery,
      sb_source = search_source\<rparr>"

definition aggregationRequest :: "bool_query \<Rightarrow> aggregation_body" where
  "aggregationRequest aq =
     \<lparr>ab_query = bool_json aq,
      ab_source = [''_id''],
      ab_aggs =
        JObj [(''max_price'', JObj [(''max'', JObj [(''field'', JStr ''price.amount'')])]),
              (''min_price'', JObj [(''min'', JObj [(''field'', JStr ''price.amount'')])])]\<rparr>"

text \<open>
  The listing pushed for each hit. A field read from \<open>hit._source\<close> is \<open>None\<close> when
  the hit does not carry it; lodash \<open>get\<close> puts its default in place of \<open>undefined\<close>.
\<close>

record listing_view =
  lv_id :: string
  lv_title :: "json option"
  lv_category :: "json option"
  lv_subCategory :: "json option"
  lv_description :: "json option"
  lv_price_amount :: json
  lv_price_currency :: json

definition get_default :: "json \<Rightarrow> string list \<Rightarrow> json \<Rightarrow> json" where
  "get_default j path dflt = (case get_path j path of None \<Rightarrow> dflt | Some v \<Rightarrow> v)"

definition project_hit :: "hit \<Rightarrow> listing_view" where
  "project_hit h =
     \<lparr>lv_id = hit_id h,
      lv_title = map_of (hit_source h) ''title'',
      lv_category = map_of (hit_source h) ''category'',
      lv_subCategory = map_of (hit_source h) ''subCategory'',
      lv_description = map_of (hit_source h) ''description'',
      lv_price_amount = get_default (JObj (hit_source h)) [''price'', ''amount''] (JStr ''0''),
      lv_price_currency =
        get_default (JObj (hit_source h)) [''price'', ''currency'', ''id''] (JStr ''fiat-USD'')\<rparr>"

record search_result =
  listings :: "listing_view list"
  maxPrice :: real
  minPrice :: real
  totalNumberOfListings :: int

definition or_zero :: "real option \<Rightarrow> real" where
  "or_zero v = (case v of None \<Rightarrow> 0 | Some x \<Rightarrow> x)"

text \<open>
  \<open>Listing.search\<close>: the result or the error it throws, and the log. The sort is
  resolved before the first request is issued; \<open>Promise.all\<close> rejects when either
  request does, with the rejection that comes first.
\<close>

definition search ::
  "client \<Rightarrow> redis \<Rightarrow> int \<Rightarrow> string option \<Rightarrow> string option \<Rightarrow> string option \<Rightarrow>
   filter list option \<Rightarrow> int \<Rightarrow> int \<Rightarrow> (error + search_result) \<times> log_entry list" where
  "search cl redis getTime_ms query sort' order' filters numberOfItems offset =
     (let aq = esAggregationQuery query
      in (case esQuery query filters of
            Inl e \<Rightarrow> (Inl e, [])
          | Inr q \<Rightarrow>
              (let (sortQuery, logs) = getSortQuery redis sort' order';
                   searchResponse =
                     client_search cl (searchRequest getTime_ms q sortQuery numberOfItems offset);
                   aggregationResponse = client_aggregate cl (aggregationRequest aq)
               in (case searchResponse of
                     Inl e \<Rightarrow>
                       (case aggregationResponse of
                          Inl e2 \<Rightarrow> (Inl (if search_rejects_first cl then e else e2), logs)
                        | Inr ar \<Rightarrow> (Inl e, logs))
                   | Inr sr \<Rightarrow>
                       (case aggregationResponse of
                          Inl e \<Rightarrow> (Inl e, logs)
                        | Inr ar \<Rightarrow>
                            (Inr \<lparr>listings = map project_hit (hits sr),
                                  maxPrice = or_zero (max_price_value ar),
                                  minPrice = or_zero (min_price_value ar),
                                  totalNumberOfListings = total sr\<rparr>,
                             logs @ [LogDebug ''search listings - '']))))))"

text \<open>
  Source filtering as the engine documents it for a list of plain field names: a hit's
  \<open>_source\<close> keeps the fields of the stored document that the request's \<open>_source\<close>
  list names.
\<close>

definition source_filtering :: "string list \<Rightarrow> obj \<Rightarrow> obj" where
  "source_filtering includes stored = filter (\<lambda>(k, v). k \<in> set includes) stored"

definition hit_of :: "search_body \<Rightarrow> string \<Rightarrow> obj \<Rightarrow> hit" where
  "hit_of body doc_id stored =
     \<lparr>hit_id = doc_id, hit_source = source_filtering (sb_source body) stored\<rparr>"

text \<open>
  The engine's reading of the clause kinds that occur in \<open>must_not\<close>, on a stored
  document: a field holds one value or an array of values; \<open>term\<close> and \<open>match\<close> of a
  single word hold when the field has that value, \<open>terms\<close> when it has one of the
  listed values.
\<close>

definition field_values :: "obj \<Rightarrow> string \<Rightarrow> json list" where
  "field_values stored f =
     (case map_of stored f of
        None \<Rightarrow> []
      | Some (JArr vs) \<Rightarrow> vs
      | Some v \<Rightarrow> [v])"

fun clause_matches :: "json \<Rightarrow> obj \<Rightarrow> bool" where
  "clause_matches (JObj [(kind, JObj [(f, v)])]) stored =
     (if kind = ''match'' \<or> kind = ''term'' then v \<in> set (field_values stored f)
      else if kind = ''terms'' then
        (case v of
           JArr vs \<Rightarrow> list_ex (\<lambda>x. x \<in> set (field_values stored f)) vs
         | _ \<Rightarrow> False)
      else False)"
| "clause_matches c stored = False"

subsection \<open>\<open>Listing.updateScoreTags\<close>\<close>

definition update_body :: "json \<Rightarrow> json \<Rightarrow> json" where
  "update_body scoreTags multiplier =
     JObj [(''script'',
       JObj [(''lang'', JStr ''painless''),
             (''source'', JStr ''update_script''),
             (''params'',
               JObj [(''scoreTags'', scoreTags), (''scoreMultiplier'', multiplier)])])]"

text \<open>
  \<open>client.get\<close> and \<open>scoring.scoreListing\<close> are awaited, so a rejection of either is
  thrown. \<open>client.update\<close> is called and its promise is neither awaited nor returned:
  the second component is what that promise settles to (\<open>None\<close> when the call is never
  reached). \<open>listing\<close> is \<open>result._source\<close> itself, so the scoring function sees the
  new tags. \<open>scoring.scoreListing\<close> is a parameter.
\<close>

definition updateScoreTags ::
  "client \<Rightarrow> (obj \<Rightarrow> error + json) \<Rightarrow> string \<Rightarrow> json \<Rightarrow>
   (error + obj) \<times> (error + unit) option" where
  "updateScoreTags cl scoreListing doc_id scoreTags =
     (case client_get cl doc_id of
        Inl e \<Rightarrow> (Inl e, None)
      | Inr src \<Rightarrow>
          (let listing = AList.update ''scoreTags'' scoreTags src
           in (case scoreListing listing of
                 Inl e \<Rightarrow> (Inl e, None)
               | Inr multiplier \<Rightarrow>
                   (let listing2 = AList.update ''scoreMultiplier'' multiplier listing;
                        unawaited = client_update cl doc_id (update_body scoreTags multiplier)
                    in (Inr listing2, Some unawaited)))))"

subsection \<open>Example inputs\<close>

definition example_equals_filter :: filter where
  "example_equals_filter =
     \<lparr>name = ''category'', operator = ''EQUALS'', value = JStr ''forSale'',
      valueType = ''STRING''\<rparr>"

definition example_unknown_filter :: filter where
  "example_unknown_filter =
     \<lparr>name = ''price.amount'', operator = ''BOGUS'', value = JStr ''1'',
      valueType = ''STRING''\<rparr>"

text \<open>
  An engine that honours \<open>size\<close> and the \<open>_source\<close> list, holds one listing, and
  rejects every update.
\<close>

definition example_client :: client where
  "example_client =
     \<lparr>client_search = (\<lambda>body.
        if sb_size body < 0 then Inl (EngineError ''illegal_argument_exception'')
        else Inr \<lparr>hits = take (nat (sb_size body))
                          [\<lparr>hit_id = ''1-000-7'',
                            hit_source = source_filtering (sb_source body)
                              [(''title'', JStr ''Bike''),
                               (''category'', JStr ''schema.forSale''),
                               (''subCategory'', JStr ''schema.bicycles''),
                               (''description'', JStr ''A red bike''),
                               (''price'', JObj [(''amount'', JStr ''10''),
                                                 (''currency'', JObj [(''id'', JStr ''fiat-USD'')])])]\<rparr>],
                  total = 1\<rparr>),
      client_aggregate = (\<lambda>body. Inr \<lparr>max_price_value = Some 10, min_price_value = Some 10\<rparr>),
      client_get = (\<lambda>doc_id. Inr [(''title'', JStr ''Bike''), (''scoreTags'', JArr [])]),
      client_update = (\<lambda>doc_id body. Inl (EngineError ''version_conflict_engine_exception'')),
      search_rejects_first = True\<rparr>"

text \<open>
  An index of four listings, one visible, one withdrawn, one invalid and one hidden, and
  an engine over it that honours \<open>must_not\<close>, \<open>size\<close> and the \<open>_source\<close> list.
\<close>

definition example_index :: "(string \<times> obj) list" where
  "example_index =
     [(''1-000-7'', [(''title'', JStr ''Bike''), (''status'', JStr ''active''),
                     (''valid'', JBool True), (''scoreTags'', JArr [])]),
      (''1-000-8'', [(''title'', JStr ''Old bike''), (''status'', JStr ''withdrawn''),
                     (''valid'', JBool True), (''scoreTags'', JArr [])]),
      (''1-000-9'', [(''title'', JStr ''Broken bike''), (''status'', JStr ''active''),
                     (''valid'', JBool False), (''scoreTags'', JArr [])]),
      (''1-000-10'', [(''title'', JStr ''Stolen bike''), (''status'', JStr ''active''),
                      (''valid'', JBool True), (''scoreTags'', JArr [JStr ''Hide''])])]"

definition example_index_search :: "search_body \<Rightarrow> error + search_response" where
  "example_index_search body =
     (let cs = (case get_path (sb_query body)
                       [''function_score'', ''query'', ''bool'', ''must_not''] of
                  Some (JArr clauses) \<Rightarrow> clauses
                | _ \<Rightarrow> []);
          found = filter (\<lambda>(doc_id, stored). \<not> list_ex (\<lambda>c. clause_matches c stored) cs)
                    example_index
      in Inr \<lparr>hits = take (nat (sb_size body))
                        (map (\<lambda>(doc_id, stored).
                                \<lparr>hit_id = doc_id,
                                 hit_source = source_filtering (sb_source body) stored\<rparr>)
                           found),
              total = int (length found)\<rparr>)"

definition example_index_client :: client where
  "example_index_client =
     \<lparr>client_search = example_index_search,
      client_aggregate = (\<lambda>body. Inr \<lparr>max_price_value = None, min_price_value = None\<rparr>),
      client_get = (\<lambda>doc_id. Inl (EngineError ''not_found'')),
      client_update = (\<lambda>doc_id body. Inl (EngineError ''not_found'')),
      search_rejects_first = True\<rparr>"

definition example_scoreListing :: "obj \<Rightarrow> error + json" where
  "example_scoreListing listing = Inr (JNum 0)"

text \<open>A rate source that answers every key with the rate 2.\<close>

definition example_redis :: redis where
  "example_redis = Inr (\<lambda>key. Inr (Some ''2''))"

definition example_parseFloat :: "string \<Rightarrow> real option" where
  "example_parseFloat s =
     (if s = ''10'' then Some 10
      else if s = ''200.0'' then Some 200
      else if s = ''1'' then Some 1
      else if s = ''2000000000'' then Some 2000000000
      else if s = ''-5'' then Some (- 5)
      else None)"

definition example_malformed_doc :: json where
  "example_malformed_doc =
     JObj [(''price'', JObj [(''amount'', JStr ''ten''),
                             (''currency'', JObj [(''id'', JStr ''fiat-USD'')])])]"

definition example_priced_doc :: json where
  "example_priced_doc =
     JObj [(''price'', JObj [(''amount'', JStr ''10''),
                             (''currency'', JObj [(''id'', JStr ''token-ETH'')])])]"

definition example_expensive_doc :: json where
  "example_expensive_doc =
     JObj [(''price'', JObj [(''amount'', JStr ''2000000000''),
                             (''currency'', JObj [(''id'', JStr ''fiat-USD'')])])]"

definition example_negative_doc :: json where
  "example_negative_doc =
     JObj [(''price'', JObj [(''amount'', JStr ''-5''),
                             (''currency'', JObj [(''id'', JStr ''fiat-USD'')])])]"

definition example_rates :: rates where
  "example_rates = [(''fiat-USD'', ''1''), (''token-ETH'', ''200.0'')]"

section \<open>Properties\<close>


subsection \<open>Query construction\<close>

lemma push_filters_keeps:
  "push_filters q fs = Inr r \<Longrightarrow>
   must r = must q \<and> must_not r = must_not q \<and> should r = should q"
  by (induction fs arbitrary: q) (auto split: sum.splits)



lemma must_not_base:
  "must_not (esQuery_base query) = [withdrawn_clause, invalid_clause, hidden_clause]"
  by (simp add: esQuery_base_def Let_def split: option.splits)






text \<open>
  Claim C6: a filter whose operator and valueType match no branch contributes no clause,
  and the query is as if the filter were absent. The code pushes \<open>innerFilter\<close> on every
  iteration, so such a filter adds the empty object to the filter array: with one
  unknown filter the array is \<open>[{}]\<close>, with no filter it is empty.
\<close>

theorem unknown_filter_pushes_empty_clause:
  "esQuery None (Some [example_unknown_filter]) =
     Inr \<lparr>must = [match_all_clause],
          must_not = [withdrawn_clause, invalid_clause, hidden_clause],
          should = [],
          filter_c = [JObj []]\<rparr> \<and>
   esQuery None (Some []) =
     Inr \<lparr>must = [match_all_clause],
          must_not = [withdrawn_clause, invalid_clause, hidden_clause],
          should = [],
          filter_c = []\<rparr>"
  by (simp add: esQuery_def esQuery_base_def innerFilter_def example_unknown_filter_def Let_def)

lemma innerFilter_unknown:
  "operator f \<noteq> ''GREATER_OR_EQUAL'' \<Longrightarrow> operator f \<noteq> ''LESSER_OR_EQUAL'' \<Longrightarrow>
   operator f \<noteq> ''EQUALS'' \<Longrightarrow>
   \<not> (operator f = ''CONTAINS'' \<and> valueType f = ''ARRAY_STRING'') \<Longrightarrow>
   innerFilter f = Inr (JObj [])"
  by (auto simp: innerFilter_def)

subsection \<open>Ranking score\<close>

lemma score_script_in_window:
  "0 <s now - ts \<Longrightarrow> now - ts <s boostPeriod \<Longrightarrow>
   score_script now b \<lparr>scoreMultiplier = Some m, createdEvent_timestamp = Some ts\<rparr> =
     b * m * (1 + real_of_int (sint (now - ts)) / 1555200 * 0.5)"
  by (simp add: score_script_def Let_def boostPeriod_def recentBoostAmount_def)

lemma score_script_clock_in_seconds:
  "score_script 1600000000 10
     \<lparr>scoreMultiplier = Some 2,
      createdEvent_timestamp = Some (1600000000 - 9 * 24 * 60 * 60)\<rparr> = 25"
  by (simp add: score_script_def boostPeriod_def recentBoostAmount_def Let_def word_sless_alt)

text \<open>
  Claim C2: the score is the base relevance times \<open>scoreMultiplier\<close> times the boost
  \<open>1 + (age / boostWindow) * 0.5\<close> for a document whose age is within the 18-day window,
  age and window both in seconds; a document created 9 days ago has boost 1.25. In the
  code \<open>boostPeriod\<close> is 18 days in seconds, but \<open>params.now\<close> is the clock in
  milliseconds. With the clock at 1600000000000 ms, base relevance 10 and multiplier 2,
  a document created 9 days earlier scores 20 (boost 1.0), whether its timestamp is
  stored in seconds or in milliseconds; the claim gives 25.
\<close>

theorem recency_boost_unit_mismatch:
  "score_script (params_now 1600000000000) 10
     \<lparr>scoreMultiplier = Some 2,
      createdEvent_timestamp = Some (1600000000 - 9 * 24 * 60 * 60)\<rparr> = 20 \<and>
   score_script (params_now 1600000000000) 10
     \<lparr>scoreMultiplier = Some 2,
      createdEvent_timestamp = Some (1600000000000 - 9 * 24 * 60 * 60 * 1000)\<rparr> = 20"
  by (simp add: score_script_def params_now_def boostPeriod_def Let_def word_sless_alt)

subsection \<open>Score tag updates\<close>

text \<open>
  Claim C4: a failure of the engine's update operation reaches the caller of
  \<open>updateScoreTags\<close> as an error. In the code the promise of \<open>client.update\<close> is
  not awaited: whenever the read and the scoring succeed and the update is rejected,
  \<open>updateScoreTags\<close> still returns the listing, and the rejection stays with the
  dropped promise.
\<close>

theorem update_failure_not_propagated:
  "client_get cl doc_id = Inr src \<Longrightarrow>
   scoreListing (AList.update ''scoreTags'' scoreTags src) = Inr m \<Longrightarrow>
   client_update cl doc_id (update_body scoreTags m) = Inl e \<Longrightarrow>
   updateScoreTags cl scoreListing doc_id scoreTags =
     (Inr (AList.update ''scoreMultiplier'' m (AList.update ''scoreTags'' scoreTags src)),
      Some (Inl e))"
  by (simp add: updateScoreTags_def Let_def)

theorem update_failure_not_propagated_witness:
  "updateScoreTags example_client example_scoreListing ''1-000-7'' (JArr [JStr ''Hide'']) =
     (Inr [(''title'', JStr ''Bike''), (''scoreTags'', JArr [JStr ''Hide'']),
           (''scoreMultiplier'', JNum 0)],
      Some (Inl (EngineError ''version_conflict_engine_exception'')))"
  using update_failure_not_propagated
    [of example_client "''1-000-7''" "[(''title'', JStr ''Bike''), (''scoreTags'', JArr [])]"
        example_scoreListing "JArr [JStr ''Hide'']" "JNum 0"
        "EngineError ''version_conflict_engine_exception''"]
  by (simp add: example_client_def example_scoreListing_def)

lemma get_failure_propagated:
  "client_get cl doc_id = Inl e \<Longrightarrow>
   updateScoreTags cl scoreListing doc_id scoreTags = (Inl e, None)"
  by (simp add: updateScoreTags_def)

subsection \<open>Projection of hits\<close>

lemma map_of_source_filtering:
  "map_of (source_filtering includes stored) k =
     (if k \<in> set includes then map_of stored k else None)"
  unfolding source_filtering_def by (induction stored) auto

text \<open>
  Claim C5: every hit is projected to id, title, category, subCategory, description and
  price, each populated from the stored document when the document has it. The
  projection reads \<open>category\<close> and \<open>subCategory\<close> from the hit, but the \<open>_source\<close> list
  of the search request does not name them: for every stored document, whatever its
  category, both are undefined in the listing, while id, title, description and price
  amount are those of the stored document.
\<close>

theorem category_not_requested:
  "lv_category (project_hit (hit_of (searchRequest getTime_ms q sortQuery numberOfItems offset)
      doc_id stored)) = None \<and>
   lv_subCategory (project_hit (hit_of (searchRequest getTime_ms q sortQuery numberOfItems offset)
      doc_id stored)) = None \<and>
   lv_title (project_hit (hit_of (searchRequest getTime_ms q sortQuery numberOfItems offset)
      doc_id stored)) = map_of stored ''title'' \<and>
   lv_description (project_hit (hit_of (searchRequest getTime_ms q sortQuery numberOfItems offset)
      doc_id stored)) = map_of stored ''description'' \<and>
   lv_price_amount (project_hit (hit_of (searchRequest getTime_ms q sortQuery numberOfItems offset)
      doc_id stored)) = get_default (JObj stored) [''price'', ''amount''] (JStr ''0'') \<and>
   lv_id (project_hit (hit_of (searchRequest getTime_ms q sortQuery numberOfItems offset)
      doc_id stored)) = doc_id"
  by (simp add: project_hit_def hit_of_def searchRequest_def map_of_source_filtering
      search_source_def get_default_def)

lemma project_hit_reads_hit:
  "lv_category (project_hit h) = map_of (hit_source h) ''category'' \<and>
   lv_subCategory (project_hit h) = map_of (hit_source h) ''subCategory''"
  by (simp add: project_hit_def)

subsection \<open>Page size\<close>

lemma search_listings:
  assumes "search cl redis t query sort' order' filters n off = (Inr res, logs)"
  shows "\<exists>q sr. esQuery query filters = Inr q \<and>
           client_search cl (searchRequest t q (fst (getSortQuery redis sort' order')) n off) =
             Inr sr \<and>
           listings res = map project_hit (hits sr)"
  using assms
  by (auto simp: search_def Let_def split: sum.splits prod.splits)

text \<open>
  Claim C10: with \<open>numberOfItems = -1\<close> the search request asks for 1000 items, so with
  an engine that returns no more hits than the size asked for, the listings returned by
  \<open>Listing.search\<close> are at most 1000.
\<close>

theorem page_size_sentinel:
  "sb_size (searchRequest getTime_ms q sortQuery (- 1) offset) = 1000 \<and>
   (search cl redis getTime_ms query sort' order' filters (- 1) offset = (Inr res, logs) \<longrightarrow>
    (\<forall>body sr. client_search cl body = Inr sr \<longrightarrow> int (length (hits sr)) \<le> sb_size body) \<longrightarrow>
    length (listings res) \<le> 1000)"
proof (intro conjI impI)
  show size: "sb_size (searchRequest getTime_ms q sortQuery (- 1) offset) = 1000"
    by (simp add: searchRequest_def resolve_numberOfItems_def)
  assume run: "search cl redis getTime_ms query sort' order' filters (- 1) offset = (Inr res, logs)"
    and contract: "\<forall>body sr. client_search cl body = Inr sr \<longrightarrow>
                     int (length (hits sr)) \<le> sb_size body"
  define sq where "sq = fst (getSortQuery redis sort' order')"
  from search_listings [OF run] obtain q' sr where
    sent: "client_search cl (searchRequest getTime_ms q' sq (- 1) offset) = Inr sr"
    and ls: "listings res = map project_hit (hits sr)"
    unfolding sq_def by blast
  from contract sent
  have "int (length (hits sr)) \<le> sb_size (searchRequest getTime_ms q' sq (- 1) offset)"
    by blast
  then have "int (length (hits sr)) \<le> 1000"
    by (simp add: searchRequest_def resolve_numberOfItems_def)
  with ls show "length (listings res) \<le> 1000" by simp
qed

theorem page_size_sentinel_witness:
  "search example_client example_redis 1600000000000 None None None None (- 1) 0 =
     (Inr \<lparr>listings =
             [\<lparr>lv_id = ''1-000-7'', lv_title = Some (JStr ''Bike''),
               lv_category = None, lv_subCategory = None,
               lv_description = Some (JStr ''A red bike''),
               lv_price_amount = JStr ''10'',
               lv_price_currency = JStr ''fiat-USD''\<rparr>],
           maxPrice = 10, minPrice = 10, totalNumberOfListings = 1\<rparr>,
      [LogDebug ''Exchange Rates - '', LogDebug ''search listings - '']) \<and>
   length [\<lparr>lv_id = ''1-000-7'', lv_title = Some (JStr ''Bike''),
               lv_category = None, lv_subCategory = None,
               lv_description = Some (JStr ''A red bike''),
               lv_price_amount = JStr ''10'',
               lv_price_currency = JStr ''fiat-USD''\<rparr>] \<le> 1000"
proof -
  have run: "search example_client example_redis 1600000000000 None None None None (- 1) 0 =
     (Inr \<lparr>listings =
             [\<lparr>lv_id = ''1-000-7'', lv_title = Some (JStr ''Bike''),
               lv_category = None, lv_subCategory = None,
               lv_description = Some (JStr ''A red bike''),
               lv_price_amount = JStr ''10'',
               lv_price_currency = JStr ''fiat-USD''\<rparr>],
           maxPrice = 10, minPrice = 10, totalNumberOfListings = 1\<rparr>,
      [LogDebug ''Exchange Rates - '', LogDebug ''search listings - ''])"
    by code_simp
  have contract: "\<forall>body sr. client_search example_client body = Inr sr \<longrightarrow>
                    int (length (hits sr)) \<le> sb_size body"
    by (auto simp: example_client_def split: if_splits)
  from page_size_sentinel [of 1600000000000 _ _ 0 example_client example_redis None None None None]
    run contract
  show ?thesis by simp
qed

subsection \<open>Visibility rules\<close>

lemma must_not_literal:
  "must_not (esQuery_base query) =
     [JObj [(''match'', JObj [(''status'', JStr ''withdrawn'')])],
      JObj [(''term'', JObj [(''valid'', JBool False)])],
      JObj [(''terms'', JObj [(''scoreTags'', JArr [JStr ''Hide'', JStr ''Delete''])])]]"
  by (simp add: must_not_base withdrawn_clause_def invalid_clause_def hidden_clause_def)

lemma request_must_not:
  "get_path (sb_query (searchRequest getTime_ms q sortQuery numberOfItems offset))
     [''function_score'', ''query'', ''bool'', ''must_not''] = Some (JArr (must_not q))"
  by (simp add: searchRequest_def scoreQuery_def bool_json_def)

lemma example_index_contract:
  "\<forall>body sr h. client_search example_index_client body = Inr sr \<longrightarrow> h \<in> set (hits sr) \<longrightarrow>
       (\<exists>stored. (hit_id h, stored) \<in> set example_index \<and>
          (\<forall>cs c. get_path (sb_query body) [''function_score'', ''query'', ''bool'', ''must_not'']
                     = Some (JArr cs) \<longrightarrow>
                   c \<in> set cs \<longrightarrow> \<not> clause_matches c stored))"
proof (intro allI impI)
  fix body sr h
  assume r: "client_search example_index_client body = Inr sr" and h: "h \<in> set (hits sr)"
  define cs0 where "cs0 = (case get_path (sb_query body)
                       [''function_score'', ''query'', ''bool'', ''must_not''] of
                  Some (JArr clauses) \<Rightarrow> clauses
                | _ \<Rightarrow> [])"
  define found where "found = filter (\<lambda>(doc_id, stored). \<not> list_ex (\<lambda>c. clause_matches c stored) cs0)
                    example_index"
  from r have "hits sr = take (nat (sb_size body))
                        (map (\<lambda>(doc_id, stored).
                                \<lparr>hit_id = doc_id,
                                 hit_source = source_filtering (sb_source body) stored\<rparr>)
                           found)"
    unfolding example_index_client_def example_index_search_def found_def cs0_def Let_def
    by auto
  with h have "h \<in> set (map (\<lambda>(doc_id, stored).
                                \<lparr>hit_id = doc_id,
                                 hit_source = source_filtering (sb_source body) stored\<rparr>)
                           found)"
    by (auto dest: in_set_takeD)
  then obtain doc_id stored where f: "(doc_id, stored) \<in> set found" and hid: "hit_id h = doc_id"
    by auto
  from f have mem: "(doc_id, stored) \<in> set example_index"
    and vis: "\<not> list_ex (\<lambda>c. clause_matches c stored) cs0"
    unfolding found_def by auto
  have "\<forall>cs c. get_path (sb_query body) [''function_score'', ''query'', ''bool'', ''must_not'']
                     = Some (JArr cs) \<longrightarrow>
                   c \<in> set cs \<longrightarrow> \<not> clause_matches c stored"
    using vis unfolding cs0_def by (auto simp: list_ex_iff)
  with mem hid show "\<exists>stored. (hit_id h, stored) \<in> set example_index \<and>
          (\<forall>cs c. get_path (sb_query body) [''function_score'', ''query'', ''bool'', ''must_not'']
                     = Some (JArr cs) \<longrightarrow>
                   c \<in> set cs \<longrightarrow> \<not> clause_matches c stored)"
    by blast
qed


text \<open>
  Claim C3: for every query string and every filter list, the \<open>must_not\<close> array of the
  ranked query, as built and as sent in the search request, is exactly the three
  clauses \<open>match status withdrawn\<close>, \<open>term valid false\<close> and
  \<open>terms scoreTags [Hide, Delete]\<close>. With an engine that returns only documents of
  its index that match no \<open>must_not\<close> clause of the request, every listing returned by
  \<open>Listing.search\<close> is a stored document whose status is not withdrawn, whose
  \<open>valid\<close> is not false and whose scoreTags hold neither Hide nor Delete.
\<close>

theorem visibility_rules_unconditional:
  "(esQuery query filters = Inr q \<longrightarrow>
      must_not q =
        [JObj [(''match'', JObj [(''status'', JStr ''withdrawn'')])],
         JObj [(''term'', JObj [(''valid'', JBool False)])],
         JObj [(''terms'', JObj [(''scoreTags'', JArr [JStr ''Hide'', JStr ''Delete''])])]] \<and>
      get_path (sb_query (searchRequest getTime_ms q sortQuery numberOfItems offset))
        [''function_score'', ''query'', ''bool'', ''must_not''] =
      Some (JArr
        [JObj [(''match'', JObj [(''status'', JStr ''withdrawn'')])],
         JObj [(''term'', JObj [(''valid'', JBool False)])],
         JObj [(''terms'', JObj [(''scoreTags'', JArr [JStr ''Hide'', JStr ''Delete''])])]])) \<and>
   (search cl redis getTime_ms query sort' order' filters numberOfItems offset = (Inr res, logs) \<longrightarrow>
    (\<forall>body sr h. client_search cl body = Inr sr \<longrightarrow> h \<in> set (hits sr) \<longrightarrow>
       (\<exists>stored. (hit_id h, stored) \<in> set index \<and>
          (\<forall>cs c. get_path (sb_query body) [''function_score'', ''query'', ''bool'', ''must_not'']
                     = Some (JArr cs) \<longrightarrow>
                   c \<in> set cs \<longrightarrow> \<not> clause_matches c stored))) \<longrightarrow>
    (\<forall>l \<in> set (listings res).
       \<exists>stored. (lv_id l, stored) \<in> set index \<and>
         JStr ''withdrawn'' \<notin> set (field_values stored ''status'') \<and>
         JBool False \<notin> set (field_values stored ''valid'') \<and>
         JStr ''Hide'' \<notin> set (field_values stored ''scoreTags'') \<and>
         JStr ''Delete'' \<notin> set (field_values stored ''scoreTags'')))"
proof (intro conjI impI ballI)
  let ?V = "[JObj [(''match'', JObj [(''status'', JStr ''withdrawn'')])],
             JObj [(''term'', JObj [(''valid'', JBool False)])],
             JObj [(''terms'', JObj [(''scoreTags'', JArr [JStr ''Hide'', JStr ''Delete''])])]]"
  have kept: "must_not r = ?V" if "esQuery query filters = Inr r" for r
    using that push_filters_keeps [of "esQuery_base query" _ r] must_not_literal [of query]
    unfolding esQuery_def by simp
  {
    assume b: "esQuery query filters = Inr q"
    show "must_not q = ?V" using kept [OF b] .
    then show "get_path (sb_query (searchRequest getTime_ms q sortQuery numberOfItems offset))
        [''function_score'', ''query'', ''bool'', ''must_not''] = Some (JArr ?V)"
      by (simp add: request_must_not)
  }
  fix l
  assume run: "search cl redis getTime_ms query sort' order' filters numberOfItems offset = (Inr res, logs)"
    and contract: "\<forall>body sr h. client_search cl body = Inr sr \<longrightarrow> h \<in> set (hits sr) \<longrightarrow>
       (\<exists>stored. (hit_id h, stored) \<in> set index \<and>
          (\<forall>cs c. get_path (sb_query body) [''function_score'', ''query'', ''bool'', ''must_not'']
                     = Some (JArr cs) \<longrightarrow>
                   c \<in> set cs \<longrightarrow> \<not> clause_matches c stored))"
    and l: "l \<in> set (listings res)"
  define sq where "sq = fst (getSortQuery redis sort' order')"
  from search_listings [OF run] obtain q' sr where
    built: "esQuery query filters = Inr q'"
    and sent: "client_search cl (searchRequest getTime_ms q' sq numberOfItems offset) = Inr sr"
    and ls: "listings res = map project_hit (hits sr)"
    unfolding sq_def by blast
  from l ls obtain h where h: "h \<in> set (hits sr)" and lh: "l = project_hit h"
    by auto
  have path: "get_path (sb_query (searchRequest getTime_ms q' sq numberOfItems offset))
        [''function_score'', ''query'', ''bool'', ''must_not''] = Some (JArr ?V)"
    using kept [OF built] by (simp add: request_must_not)
  from contract sent h obtain stored where
    mem: "(hit_id h, stored) \<in> set index"
    and none: "\<forall>cs c. get_path (sb_query (searchRequest getTime_ms q' sq numberOfItems offset))
                  [''function_score'', ''query'', ''bool'', ''must_not''] = Some (JArr cs) \<longrightarrow>
                c \<in> set cs \<longrightarrow> \<not> clause_matches c stored"
    by blast
  from none path have each: "\<forall>c \<in> set ?V. \<not> clause_matches c stored"
    by blast
  have id: "lv_id l = hit_id h"
    by (simp add: lh project_hit_def)
  from each have "JStr ''withdrawn'' \<notin> set (field_values stored ''status'') \<and>
         JBool False \<notin> set (field_values stored ''valid'') \<and>
         JStr ''Hide'' \<notin> set (field_values stored ''scoreTags'') \<and>
         JStr ''Delete'' \<notin> set (field_values stored ''scoreTags'')"
    by simp
  with mem id show "\<exists>stored. (lv_id l, stored) \<in> set index \<and>
         JStr ''withdrawn'' \<notin> set (field_values stored ''status'') \<and>
         JBool False \<notin> set (field_values stored ''valid'') \<and>
         JStr ''Hide'' \<notin> set (field_values stored ''scoreTags'') \<and>
         JStr ''Delete'' \<notin> set (field_values stored ''scoreTags'')"
    by auto
qed

theorem visibility_rules_unconditional_witness:
  "search example_index_client example_redis 1600000000000 (Some ''bike'') None None
     (Some [example_equals_filter]) 10 0 =
     (Inr \<lparr>listings =
             [\<lparr>lv_id = ''1-000-7'', lv_title = Some (JStr ''Bike''),
               lv_category = None, lv_subCategory = None,
               lv_description = None, lv_price_amount = JStr ''0'',
               lv_price_currency = JStr ''fiat-USD''\<rparr>],
           maxPrice = 0, minPrice = 0, totalNumberOfListings = 1\<rparr>,
      [LogDebug ''Exchange Rates - '', LogDebug ''search listings - '']) \<and>
   (\<exists>stored. (''1-000-7'', stored) \<in> set example_index \<and>
      JStr ''withdrawn'' \<notin> set (field_values stored ''status'') \<and>
      JBool False \<notin> set (field_values stored ''valid'') \<and>
      JStr ''Hide'' \<notin> set (field_values stored ''scoreTags'') \<and>
      JStr ''Delete'' \<notin> set (field_values stored ''scoreTags''))"
proof -
  have run: "search example_index_client example_redis 1600000000000 (Some ''bike'') None None
     (Some [example_equals_filter]) 10 0 =
     (Inr \<lparr>listings =
             [\<lparr>lv_id = ''1-000-7'', lv_title = Some (JStr ''Bike''),
               lv_category = None, lv_subCategory = None,
               lv_description = None, lv_price_amount = JStr ''0'',
               lv_price_currency = JStr ''fiat-USD''\<rparr>],
           maxPrice = 0, minPrice = 0, totalNumberOfListings = 1\<rparr>,
      [LogDebug ''Exchange Rates - '', LogDebug ''search listings - ''])"
    by code_simp
  note t = visibility_rules_unconditional
      [of "Some ''bike''" "Some [example_equals_filter]" _ 1600000000000 _ 10 0
          example_index_client example_redis None None _ _ example_index]
  from t have "search example_index_client example_redis 1600000000000 (Some ''bike'') None None
        (Some [example_equals_filter]) 10 0 =
        (Inr \<lparr>listings =
             [\<lparr>lv_id = ''1-000-7'', lv_title = Some (JStr ''Bike''),
               lv_category = None, lv_subCategory = None,
               lv_description = None, lv_price_amount = JStr ''0'',
               lv_price_currency = JStr ''fiat-USD''\<rparr>],
           maxPrice = 0, minPrice = 0, totalNumberOfListings = 1\<rparr>,
         [LogDebug ''Exchange Rates - '', LogDebug ''search listings - '']) \<longrightarrow>
      (\<forall>body sr h. client_search example_index_client body = Inr sr \<longrightarrow> h \<in> set (hits sr) \<longrightarrow>
       (\<exists>stored. (hit_id h, stored) \<in> set example_index \<and>
          (\<forall>cs c. get_path (sb_query body) [''function_score'', ''query'', ''bool'', ''must_not'']
                     = Some (JArr cs) \<longrightarrow>
                   c \<in> set cs \<longrightarrow> \<not> clause_matches c stored))) \<longrightarrow>
      (\<forall>l \<in> set (listings \<lparr>listings =
             [\<lparr>lv_id = ''1-000-7'', lv_title = Some (JStr ''Bike''),
               lv_category = None, lv_subCategory = None,
               lv_description = None, lv_price_amount = JStr ''0'',
               lv_price_currency = JStr ''fiat-USD''\<rparr>],
           maxPrice = 0, minPrice = 0, totalNumberOfListings = 1\<rparr>).
       \<exists>stored. (lv_id l, stored) \<in> set example_index \<and>
         JStr ''withdrawn'' \<notin> set (field_values stored ''status'') \<and>
         JBool False \<notin> set (field_values stored ''valid'') \<and>
         JStr ''Hide'' \<notin> set (field_values stored ''scoreTags'') \<and>
         JStr ''Delete'' \<notin> set (field_values stored ''scoreTags''))"
    by (rule conjunct2)
  from this [rule_format, OF run example_index_contract [rule_format]]
  have "\<exists>stored. (''1-000-7'', stored) \<in> set example_index \<and>
      JStr ''withdrawn'' \<notin> set (field_values stored ''status'') \<and>
      JBool False \<notin> set (field_values stored ''valid'') \<and>
      JStr ''Hide'' \<notin> set (field_values stored ''scoreTags'') \<and>
      JStr ''Delete'' \<notin> set (field_values stored ''scoreTags'')"
    by simp
  with run show ?thesis by simp
qed

subsection \<open>Sorting by price\<close>

lemma parsed_amount_unparsable:
  "get_path src [''price'', ''amount''] = Some (JStr a) \<Longrightarrow> parseFloat a = None \<Longrightarrow>
   parsed_amount parseFloat src = None"
  by (simp add: parsed_amount_def)

lemma parsed_rate_unparsable:
  "get_path src [''price'', ''currency'', ''id''] = Some (JStr c) \<Longrightarrow> map_of rts c = Some r \<Longrightarrow>
   parseFloat r = None \<Longrightarrow> parsed_rate parseFloat rts src = None"
  by (simp add: parsed_rate_def)

lemma parsed_rate_missing:
  "get_path src [''price'', ''currency'', ''id''] = Some (JStr c) \<Longrightarrow> map_of rts c = None \<Longrightarrow>
   parsed_rate parseFloat rts src = None"
  by (simp add: parsed_rate_def)

text \<open>
  Claim C7, as stated: a document whose price amount or currency rate fails to parse
  gets the sentinel and so sorts to the back of the list in either direction. The
  second half fails: ascending, a document priced 2000000000 USD sorts behind the
  malformed one (sentinel 1000000000); descending, a document priced -5 USD sorts
  behind it (sentinel 0).
\<close>

theorem sentinel_not_last_counterexample:
  "parsed_amount example_parseFloat example_malformed_doc = None \<and>
   sort_script example_parseFloat ''asc'' example_rates example_malformed_doc = 1000000000 \<and>
   sort_script example_parseFloat ''asc'' example_rates example_expensive_doc = 2000000000 \<and>
   sort_script example_parseFloat ''asc'' example_rates example_malformed_doc
     < sort_script example_parseFloat ''asc'' example_rates example_expensive_doc \<and>
   sort_script example_parseFloat ''desc'' example_rates example_malformed_doc = 0 \<and>
   sort_script example_parseFloat ''desc'' example_rates example_negative_doc = - 5 \<and>
   sort_script example_parseFloat ''desc'' example_rates example_negative_doc
     < sort_script example_parseFloat ''desc'' example_rates example_malformed_doc"
  by (simp add: sort_script_def parsed_amount_def parsed_rate_def sentinel_def
      example_parseFloat_def example_malformed_doc_def example_expensive_doc_def
      example_negative_doc_def example_rates_def)

text \<open>
  Claim C7, amended: when the price amount or the currency rate of a document fails to
  parse during a \<open>price.amount\<close> sort, the script does not throw and returns the
  sentinel, 1000000000 when the order is \<open>asc\<close> and 0 when it is \<open>desc\<close>. Ascending,
  the documents that sort no later than the malformed one are exactly those whose sort
  value is at most 1000000000; descending, exactly those whose sort value is at least 0.
\<close>

theorem malformed_price_sentinel:
  "parsed_amount parseFloat src = None \<or> parsed_rate parseFloat rts src = None \<Longrightarrow>
   sort_script parseFloat order' rts src = (if order' = ''asc'' then 1000000000 else 0) \<and>
   (order' = ''asc'' \<longrightarrow>
      (sort_script parseFloat order' rts other \<le> sort_script parseFloat order' rts src \<longleftrightarrow>
       sort_script parseFloat order' rts other \<le> 1000000000)) \<and>
   (order' = ''desc'' \<longrightarrow>
      (sort_script parseFloat order' rts src \<le> sort_script parseFloat order' rts other \<longleftrightarrow>
       0 \<le> sort_script parseFloat order' rts other))"
proof -
  assume "parsed_amount parseFloat src = None \<or> parsed_rate parseFloat rts src = None"
  then have v: "sort_script parseFloat order' rts src = sentinel order'"
    by (auto simp: sort_script_def split: option.splits)
  show ?thesis
    unfolding v by (auto simp: sentinel_def)
qed

theorem malformed_price_sentinel_witness:
  "parsed_amount example_parseFloat example_malformed_doc = None \<and>
   sort_script example_parseFloat ''asc'' example_rates example_malformed_doc = 1000000000 \<and>
   sort_script example_parseFloat ''desc'' example_rates example_malformed_doc = 0 \<and>
   sort_script example_parseFloat ''asc'' example_rates example_priced_doc = 2000 \<and>
   sort_script example_parseFloat ''asc'' example_rates example_priced_doc
     \<le> sort_script example_parseFloat ''asc'' example_rates example_malformed_doc \<and>
   sort_script example_parseFloat ''desc'' example_rates example_malformed_doc
     \<le> sort_script example_parseFloat ''desc'' example_rates example_priced_doc"
proof -
  have a: "parsed_amount example_parseFloat example_malformed_doc = None"
    by (simp add: parsed_amount_def example_parseFloat_def example_malformed_doc_def)
  have p: "sort_script example_parseFloat ''asc'' example_rates example_priced_doc = 2000"
    "sort_script example_parseFloat ''desc'' example_rates example_priced_doc = 2000"
    by (simp add: sort_script_def parsed_amount_def parsed_rate_def example_parseFloat_def
        example_priced_doc_def example_rates_def)+
  from malformed_price_sentinel [of example_parseFloat example_malformed_doc example_rates "''asc''" example_priced_doc]
       malformed_price_sentinel [of example_parseFloat example_malformed_doc example_rates "''desc''" example_priced_doc]
       a p
  show ?thesis by simp
qed

subsection \<open>Sort resolution\<close>

text \<open>
  Claim C8, as stated: every rejected pair of \<open>sort\<close> and \<open>order\<close>, a missing or empty
  value included, is logged. It fails for an empty \<open>sort\<close> and for missing values: the
  result is no sort and nothing but the debug entry of the rate lookup is logged.
\<close>

theorem empty_sort_not_logged:
  "getSortQuery example_redis (Some []) (Some ''asc'') = (JArr [], [LogDebug ''Exchange Rates - '']) \<and>
   getSortQuery example_redis None None = (JArr [], [LogDebug ''Exchange Rates - ''])"
  by code_simp

lemma getSortQuery_fst_eq:
  "fst (getSortQuery redis sort1 order1) = fst (getSortQuery redis sort2 order2) \<Longrightarrow>
   fst (search cl redis t query sort1 order1 filters n off) =
   fst (search cl redis t query sort2 order2 filters n off)"
  by (auto simp: search_def Let_def split: sum.splits prod.splits)

text \<open>
  Claim C8, amended: for every pair where \<open>sort\<close> is not \<open>price.amount\<close> or \<open>order\<close> is
  neither \<open>asc\<close> nor \<open>desc\<close>, the sort resolution yields no sort and \<open>Listing.search\<close>
  returns what it returns without the two arguments. The rejection is logged, as one
  error entry after the entries of the rate lookup, when both values are present and
  non-empty; when either is missing or empty nothing is logged for it.
\<close>

theorem unlisted_sort_falls_back:
  "\<not> (sort' = Some ''price.amount'' \<and> (order' = Some ''asc'' \<or> order' = Some ''desc'')) \<Longrightarrow>
   fst (getSortQuery redis sort' order') = JArr [] \<and>
   fst (search cl redis getTime_ms query sort' order' filters numberOfItems offset) =
     fst (search cl redis getTime_ms query None None filters numberOfItems offset) \<and>
   snd (getSortQuery redis sort' order') =
     rate_logs (getExchangeRatesToUSD redis currencies) @
     (case (sort', order') of
        (Some s, Some ord) \<Rightarrow>
          if s \<noteq> [] \<and> ord \<noteq> [] then [LogError (not_whitelisted_message s ord)] else []
      | _ \<Rightarrow> [])"
proof -
  assume h: "\<not> (sort' = Some ''price.amount'' \<and> (order' = Some ''asc'' \<or> order' = Some ''desc''))"
  have none: "fst (getSortQuery redis None None) = JArr []"
    by (simp add: getSortQuery_def Let_def)
  from h have f: "fst (getSortQuery redis sort' order') = JArr []"
    by (auto simp: getSortQuery_def Let_def sortWhiteList_def orderWhiteList_def
        split: option.splits)
  from h have l: "snd (getSortQuery redis sort' order') =
     rate_logs (getExchangeRatesToUSD redis currencies) @
     (case (sort', order') of
        (Some s, Some ord) \<Rightarrow>
          if s \<noteq> [] \<and> ord \<noteq> [] then [LogError (not_whitelisted_message s ord)] else []
      | _ \<Rightarrow> [])"
    by (auto simp: getSortQuery_def Let_def sortWhiteList_def orderWhiteList_def
        split: option.splits)
  from f none have "fst (search cl redis getTime_ms query sort' order' filters numberOfItems offset) =
     fst (search cl redis getTime_ms query None None filters numberOfItems offset)"
    by (intro getSortQuery_fst_eq) simp
  with f l show ?thesis by simp
qed

theorem unlisted_sort_falls_back_witness:
  "getSortQuery example_redis (Some ''bogus'') (Some ''asc'') =
     (JArr [],
      [LogDebug ''Exchange Rates - '',
       LogError ''Sort variables are not whitelisted - sort = bogus, order = asc, disabling sorting''])"
proof -
  have r: "rate_logs (getExchangeRatesToUSD example_redis currencies) = [LogDebug ''Exchange Rates - '']"
    by code_simp
  from unlisted_sort_falls_back [of "Some ''bogus''" "Some ''asc''" example_redis] r
  show ?thesis
    by (simp add: prod_eq_iff not_whitelisted_message_def)
qed

subsection \<open>Exchange rates to USD\<close>

lemma await_all_Inr:
  "await_all (map f xs) = Inr ys \<Longrightarrow>
   length ys = length xs \<and> (\<forall>(x, y) \<in> set (zip xs ys). f x = Inr y)"
proof (induction xs arbitrary: ys)
  case Nil
  then show ?case by simp
next
  case (Cons x xs)
  then show ?case by (auto split: sum.splits)
qed

lemma await_all_Inl:
  "await_all (map f xs) = Inl e \<Longrightarrow> \<exists>x \<in> set xs. f x = Inl e"
  by (induction xs) (auto split: sum.splits)

lemma await_all_rejects:
  "x \<in> set xs \<Longrightarrow> f x = Inl e \<Longrightarrow> \<exists>e'. await_all (map f xs) = Inl e'"
  by (induction xs) (auto split: sum.splits)

lemma store_rates_keeps:
  "map_of acc c = Some v \<Longrightarrow> (\<forall>r. (c, r) \<in> set ps \<longrightarrow> r = Some v) \<Longrightarrow>
   map_of (fst (store_rates ps (acc, logs))) c = Some v"
proof (induction ps arbitrary: acc logs)
  case Nil
  then show ?case by simp
next
  case (Cons p ps)
  obtain c' r' where p: "p = (c', r')" by (cases p)
  from Cons.prems(2) have rest: "\<forall>r. (c, r) \<in> set ps \<longrightarrow> r = Some v"
    by simp
  show ?case
  proof (cases r')
    case None
    from Cons.IH [OF Cons.prems(1) rest] show ?thesis
      by (simp add: p None)
  next
    case (Some w)
    have "c' = c \<longrightarrow> w = v"
      using Cons.prems(2) p Some by simp
    then have "map_of (AList.update c' w acc) c = Some v"
      using Cons.prems(1) by (simp add: update_conv')
    from Cons.IH [OF this rest] show ?thesis
      by (simp add: p Some)
  qed
qed

lemma store_rates_stores:
  "(c, Some v) \<in> set ps \<Longrightarrow> (\<forall>r. (c, r) \<in> set ps \<longrightarrow> r = Some v) \<Longrightarrow>
   map_of (fst (store_rates ps (acc, logs))) c = Some v"
proof (induction ps arbitrary: acc logs)
  case Nil
  then show ?case by simp
next
  case (Cons p ps)
  obtain c' r' where p: "p = (c', r')" by (cases p)
  from Cons.prems(2) have rest: "\<forall>r. (c, r) \<in> set ps \<longrightarrow> r = Some v"
    by simp
  show ?case
  proof (cases "p = (c, Some v)")
    case True
    have "map_of (AList.update c v acc) c = Some v"
      by (simp add: update_conv')
    from store_rates_keeps [OF this rest] show ?thesis
      by (simp add: True)
  next
    case False
    with Cons.prems(1) have mem: "(c, Some v) \<in> set ps" by simp
    show ?thesis
    proof (cases r')
      case None
      from Cons.IH [OF mem rest] show ?thesis
        by (simp add: p None)
    next
      case (Some w)
      from Cons.IH [OF mem rest] show ?thesis
        by (simp add: p Some)
    qed
  qed
qed

lemma lookup_keys_iff:
  "key \<in> set (lookup_keys cs) \<longleftrightarrow> (\<exists>c \<in> set cs. rate_promise c = GetAsync key)"
proof (induction cs)
  case Nil
  then show ?case by (simp add: lookup_keys_def)
next
  case (Cons c cs)
  then show ?case
    by (cases "rate_promise c") (auto simp: lookup_keys_def)
qed

lemma usd_never_looked_up: "''USD-USD_price'' \<notin> set (lookup_keys cs)"
proof
  assume "''USD-USD_price'' \<in> set (lookup_keys cs)"
  then obtain c where "rate_promise c = GetAsync ''USD-USD_price''"
    by (auto simp: lookup_keys_iff)
  then show False
    by (auto simp: rate_promise_def split: if_splits option.splits)
qed

lemma lookups_subset:
  "set (lookups (getExchangeRatesToUSD redis cs)) \<subseteq> set (lookup_keys cs)"
  by (auto simp: getExchangeRatesToUSD_def Let_def split: sum.splits prod.splits)

text \<open>
  Claim C9, amended: for every requested currency whose second part is \<open>USD\<close>, no lookup
  is made for it (its promise is the constant \<open>"1"\<close>, and the key \<open>USD-USD_price\<close> is
  never asked for). When the rate module loads and no lookup is rejected, the returned
  mapping gives that currency the string \<open>"1"\<close>. When the module fails to load or a
  lookup is rejected, the returned mapping is the fallback table.
\<close>

theorem usd_rate_without_lookup:
  "c \<in> set cs \<Longrightarrow> resolvedCurrency c = Some ''USD'' \<Longrightarrow>
   rate_promise c = Resolved ''1'' \<and>
   ''USD-USD_price'' \<notin> set (lookups (getExchangeRatesToUSD redis cs)) \<and>
   (\<forall>getAsync. redis = Inr getAsync \<and> (\<forall>key \<in> set (lookup_keys cs). \<exists>v. getAsync key = Inr v) \<longrightarrow>
      map_of (exchangeRates (getExchangeRatesToUSD redis cs)) c = Some ''1'') \<and>
   ((\<exists>e. redis = Inl e) \<or>
    (\<exists>getAsync key e. redis = Inr getAsync \<and> key \<in> set (lookup_keys cs) \<and> getAsync key = Inl e) \<longrightarrow>
      exchangeRates (getExchangeRatesToUSD redis cs) = default_rates)"
proof (intro conjI allI impI)
  assume c: "c \<in> set cs" and usd: "resolvedCurrency c = Some ''USD''"
  show p: "rate_promise c = Resolved ''1''"
    using usd by (simp add: rate_promise_def)
  show "''USD-USD_price'' \<notin> set (lookups (getExchangeRatesToUSD redis cs))"
    using lookups_subset usd_never_looked_up by blast
  {
    fix getAsync
    assume ok: "redis = Inr getAsync \<and> (\<forall>key \<in> set (lookup_keys cs). \<exists>v. getAsync key = Inr v)"
    have "\<exists>result. await_all (map (settle getAsync \<circ> rate_promise) cs) = Inr result"
    proof (cases "await_all (map (settle getAsync \<circ> rate_promise) cs)")
      case (Inl e)
      from await_all_Inl [OF Inl]
      obtain x where x: "x \<in> set cs" "settle getAsync (rate_promise x) = Inl e"
        by auto
      then obtain key where key: "rate_promise x = GetAsync key" "getAsync key = Inl e"
        by (auto simp: settle_def split: rate_promise.splits)
      with x have "key \<in> set (lookup_keys cs)"
        unfolding lookup_keys_iff by blast
      with ok obtain v where "getAsync key = Inr v" by blast
      with key show ?thesis by simp
    next
      case (Inr result)
      then show ?thesis by blast
    qed
    then obtain result where res: "await_all (map (settle getAsync \<circ> rate_promise) cs) = Inr result"
      by blast
    from await_all_Inr [OF res] have len: "length result = length cs"
      and each: "\<forall>(x, y) \<in> set (zip cs result). settle getAsync (rate_promise x) = Inr y"
      by auto
    have one: "\<forall>r. (c, r) \<in> set (zip cs result) \<longrightarrow> r = Some ''1''"
      using each p by (auto simp: settle_def)
    have "map fst (zip cs result) = cs"
      using len by (simp add: map_fst_zip)
    then have "fst ` set (zip cs result) = set cs"
      by (simp flip: set_map)
    with c have "c \<in> fst ` set (zip cs result)"
      by simp
    then obtain r where "(c, r) \<in> set (zip cs result)"
      by auto
    with one have "(c, Some ''1'') \<in> set (zip cs result)"
      by auto
    from store_rates_stores [OF this one]
    have "map_of (fst (store_rates (zip cs result) ([], []))) c = Some ''1''" .
    with ok res show "map_of (exchangeRates (getExchangeRatesToUSD redis cs)) c = Some ''1''"
      by (cases "store_rates (zip cs result) ([], [])")
         (simp add: getExchangeRatesToUSD_def)
  }
  {
    assume "(\<exists>e. redis = Inl e) \<or>
      (\<exists>getAsync key e. redis = Inr getAsync \<and> key \<in> set (lookup_keys cs) \<and> getAsync key = Inl e)"
    then show "exchangeRates (getExchangeRatesToUSD redis cs) = default_rates"
    proof
      assume "\<exists>e. redis = Inl e"
      then show ?thesis by (auto simp: getExchangeRatesToUSD_def)
    next
      assume "\<exists>getAsync key e. redis = Inr getAsync \<and> key \<in> set (lookup_keys cs) \<and> getAsync key = Inl e"
      then obtain getAsync key e where r: "redis = Inr getAsync"
        and k: "key \<in> set (lookup_keys cs)" and e: "getAsync key = Inl e"
        by blast
      from k obtain x where x: "x \<in> set cs" "rate_promise x = GetAsync key"
        by (auto simp: lookup_keys_iff)
      with e have "(settle getAsync \<circ> rate_promise) x = Inl e"
        by (simp add: settle_def)
      from await_all_rejects [of x cs "settle getAsync \<circ> rate_promise" e, OF x(1) this]
      obtain e' where "await_all (map (settle getAsync \<circ> rate_promise) cs) = Inl e'"
        by blast
      with r show ?thesis by (simp add: getExchangeRatesToUSD_def)
    qed
  }
qed

theorem usd_rate_without_lookup_witness:
  "''fiat-USD'' \<in> set currencies \<and>
   resolvedCurrency ''fiat-USD'' = Some ''USD'' \<and>
   rate_promise ''fiat-USD'' = Resolved ''1'' \<and>
   map_of (exchangeRates (getExchangeRatesToUSD example_redis currencies)) ''fiat-USD'' = Some ''1''"
proof -
  have m: "''fiat-USD'' \<in> set currencies"
    by (simp add: currencies_def)
  have u: "resolvedCurrency ''fiat-USD'' = Some ''USD''"
    by (simp add: resolvedCurrency_def)
  note t = usd_rate_without_lookup [OF m u, of example_redis]
  from t have p: "rate_promise ''fiat-USD'' = Resolved ''1''"
    by (rule conjunct1)
  from t have r: "\<forall>getAsync. example_redis = Inr getAsync \<and>
        (\<forall>key \<in> set (lookup_keys currencies). \<exists>v. getAsync key = Inr v) \<longrightarrow>
      map_of (exchangeRates (getExchangeRatesToUSD example_redis currencies)) ''fiat-USD'' = Some ''1''"
    by (elim conjE)
  have "map_of (exchangeRates (getExchangeRatesToUSD example_redis currencies)) ''fiat-USD'' = Some ''1''"
    by (rule r [rule_format, of "\<lambda>key. Inr (Some ''2'')"]) (simp add: example_redis_def)
  with m u p show ?thesis by simp
qed

text \<open>
  Claim C9, as stated: in every execution the returned mapping gives a currency quoted
  in USD the string \<open>"1"\<close>. It fails when the rate source is unreachable: the fallback
  table gives \<open>fiat-USD\<close> the string \<open>"1.0"\<close>.
\<close>

theorem fallback_usd_rate_counterexample:
  "map_of (exchangeRates (getExchangeRatesToUSD (Inl (RedisError ''ECONNREFUSED'')) currencies))
     ''fiat-USD'' = Some ''1.0'' \<and>
   map_of (exchangeRates (getExchangeRatesToUSD (Inl (RedisError ''ECONNREFUSED'')) currencies))
     ''fiat-USD'' \<noteq> Some ''1''"
  by (simp add: getExchangeRatesToUSD_def default_rates_def)

end
